theory Spec2Isabelle
  imports Complex_Main "HOL-Library.Word"
begin

section \<open>Data model of the VAD state machine (ten_vad_state_machine.h / .c)\<close>

text \<open>
  The five values of the enum \<^verbatim>\<open>vad_state_t\<close>, in the order of the declaration.
\<close>

datatype vad_state_t =
    VAD_STATE_SILENCE
  | VAD_STATE_SPEECH_START
  | VAD_STATE_SPEECH_CONTINUE
  | VAD_STATE_SPEECH_PAUSE
  | VAD_STATE_SPEECH_END

text \<open>
  C \<^verbatim>\<open>int\<close> is a 32-bit two's complement value: a \<open>32 word\<close> read through \<open>sint\<close>.
  The increments of the counters wrap around (the C standard leaves signed overflow
  undefined; wrapping is what the increment of a stored \<^verbatim>\<open>int\<close> does on the targets
  the header names). \<^verbatim>\<open>size_t\<close> is a 64-bit unsigned value. Pointers (the callback and
  its user data) are addresses; a null function pointer is \<open>None\<close>.
\<close>

type_synonym c_int = "32 word"
type_synonym c_size_t = "64 word"
type_synonym fnptr = nat
type_synonym voidptr = nat

text \<open>The comparison \<^verbatim>\<open>a >= b\<close> of two C ints is the signed one.\<close>

definition int_ge :: "c_int \<Rightarrow> c_int \<Rightarrow> bool" where
  "int_ge a b = (sint b \<le> sint a)"

text \<open>
  C \<^verbatim>\<open>float\<close> is kept abstract: the type \<open>'f\<close> of float values together with the
  operations the source applies to them. Nothing is assumed about the operations, so
  every theorem below holds for any floating-point semantics (rounding, infinities, NaN
  with its unordered comparisons).
  \<^item> \<open>fl_const n\<close>: the literal \<^verbatim>\<open>n.0f\<close> (the source writes 0.0f, 200.0f, 1000.0f);
  \<^item> \<open>fl_of_int\<close>, \<open>fl_of_size\<close>: the conversions of an \<^verbatim>\<open>int\<close> and of a \<^verbatim>\<open>size_t\<close>
    operand of a float operation;
  \<^item> \<open>fl_mul\<close>, \<open>fl_div\<close>: \<^verbatim>\<open>*\<close> and \<^verbatim>\<open>/\<close>;
  \<^item> \<open>fl_lt\<close>, \<open>fl_ge\<close>: \<^verbatim>\<open><\<close> and \<^verbatim>\<open>>=\<close>.
\<close>

record 'f float_ops =
  fl_const :: "int \<Rightarrow> 'f"
  fl_of_int :: "c_int \<Rightarrow> 'f"
  fl_of_size :: "c_size_t \<Rightarrow> 'f"
  fl_mul :: "'f \<Rightarrow> 'f \<Rightarrow> 'f"
  fl_div :: "'f \<Rightarrow> 'f \<Rightarrow> 'f"
  fl_lt :: "'f \<Rightarrow> 'f \<Rightarrow> bool"
  fl_ge :: "'f \<Rightarrow> 'f \<Rightarrow> bool"

text \<open>
  Exact arithmetic on the rationals, for evaluating concrete runs. It agrees with IEEE
  binary32 wherever every operand and result is an integer of magnitude below \<open>2 ^ 24\<close>
  and no division by zero occurs, as in every concrete run below (16, 48, 80, 200, 1000,
  256000 / 16000).
\<close>

definition exact_ops :: "rat float_ops" where
  "exact_ops =
     \<lparr> fl_const = of_int,
       fl_of_int = (\<lambda>i. of_int (sint i)),
       fl_of_size = (\<lambda>n. of_nat (unat n)),
       fl_mul = (\<lambda>a b. a * b),
       fl_div = (\<lambda>a b. a / b),
       fl_lt = (\<lambda>a b. a < b),
       fl_ge = (\<lambda>a b. b \<le> a) \<rparr>"

text \<open>\<^verbatim>\<open>vad_state_config_t\<close>\<close>

record 'f vad_state_config_t =
  speech_start_frames :: c_int
  speech_end_frames :: c_int
  pause_frames :: c_int
  pause_resume_frames :: c_int
  min_speech_duration_ms :: 'f
  max_pause_duration_ms :: 'f

text \<open>\<^verbatim>\<open>struct vad_state_machine\<close>\<close>

record 'f vad_state_machine =
  config :: "'f vad_state_config_t"
  hop_size :: c_size_t
  sample_rate :: c_int
  frame_duration_ms :: 'f
  current_state :: vad_state_t
  previous_state :: vad_state_t
  speech_frame_count :: c_int
  silence_frame_count :: c_int
  total_frame_count :: c_int
  current_state_frames :: c_int
  speech_start_frame :: c_int
  last_speech_frame :: c_int
  callback :: "fnptr option"
  user_data :: voidptr

text \<open>
  What a call does besides updating the structure: the invocation of the registered
  callback with its three arguments, and the line \<^verbatim>\<open>printf\<close> writes (the two state
  names and the frame number). The callback is code of the caller; it is recorded, not
  run (the specification forbids it to call back into the classifier).
\<close>

datatype event =
    Callback fnptr vad_state_t vad_state_t voidptr
  | Printf string string c_int

fun is_callback :: "event \<Rightarrow> bool" where
  "is_callback (Callback f old new u) = True"
| "is_callback (Printf a b n) = False"

section \<open>Operations\<close>

text \<open>\<^verbatim>\<open>default_config\<close>\<close>

definition default_config :: "'f float_ops \<Rightarrow> 'f vad_state_config_t" where
  "default_config F =
     \<lparr> speech_start_frames = 3,
       speech_end_frames = 10,
       pause_frames = 5,
       pause_resume_frames = 2,
       min_speech_duration_ms = fl_const F 200,
       max_pause_duration_ms = fl_const F 1000 \<rparr>"

text \<open>\<^verbatim>\<open>vad_state_get_name\<close> (the \<^verbatim>\<open>default\<close> branch is outside the enum's values).\<close>

fun vad_state_get_name :: "vad_state_t \<Rightarrow> string" where
  "vad_state_get_name VAD_STATE_SILENCE = ''SILENCE''"
| "vad_state_get_name VAD_STATE_SPEECH_START = ''SPEECH_START''"
| "vad_state_get_name VAD_STATE_SPEECH_CONTINUE = ''SPEECH_CONTINUE''"
| "vad_state_get_name VAD_STATE_SPEECH_PAUSE = ''SPEECH_PAUSE''"
| "vad_state_get_name VAD_STATE_SPEECH_END = ''SPEECH_END''"

text \<open>
  \<^verbatim>\<open>change_state\<close>: nothing happens when the new state is the current one; otherwise
  the three fields are written, then the callback (if any) is called, then the line is
  printed.
\<close>

definition change_state ::
  "'f vad_state_machine \<Rightarrow> vad_state_t \<Rightarrow> 'f vad_state_machine \<times> event list" where
  "change_state sm new_state =
     (if current_state sm \<noteq> new_state then
        let old_state = current_state sm;
            sm1 = sm\<lparr>previous_state := current_state sm\<rparr>;
            sm2 = sm1\<lparr>current_state := new_state\<rparr>;
            sm3 = sm2\<lparr>current_state_frames := 0\<rparr>
        in (sm3,
            (case callback sm3 of
               Some f \<Rightarrow> [Callback f old_state new_state (user_data sm3)]
             | None \<Rightarrow> [])
            @ [Printf (vad_state_get_name old_state) (vad_state_get_name new_state)
                 (total_frame_count sm3)])
      else (sm, []))"

text \<open>
  \<^verbatim>\<open>vad_state_machine_create\<close>. \<open>alloc_ok\<close> says whether \<^verbatim>\<open>malloc\<close> succeeded; a null
  \<^verbatim>\<open>config\<close> is \<open>None\<close>.
\<close>

definition vad_state_machine_create ::
  "'f float_ops \<Rightarrow> bool \<Rightarrow> 'f vad_state_config_t option \<Rightarrow> c_size_t \<Rightarrow> c_int \<Rightarrow>
   fnptr option \<Rightarrow> voidptr \<Rightarrow> 'f vad_state_machine option" where
  "vad_state_machine_create F alloc_ok cfg hop sr cb ud =
     (if \<not> alloc_ok then None
      else Some
        \<lparr> config = (case cfg of Some c \<Rightarrow> c | None \<Rightarrow> default_config F),
          hop_size = hop,
          sample_rate = sr,
          frame_duration_ms =
            fl_div F (fl_mul F (fl_of_size F hop) (fl_const F 1000)) (fl_of_int F sr),
          current_state = VAD_STATE_SILENCE,
          previous_state = VAD_STATE_SILENCE,
          speech_frame_count = 0,
          silence_frame_count = 0,
          total_frame_count = 0,
          current_state_frames = 0,
          speech_start_frame = - 1,
          last_speech_frame = - 1,
          callback = cb,
          user_data = ud \<rparr>)"

text \<open>
  \<^verbatim>\<open>vad_state_machine_process\<close>, in three parts. First the statements before the
  \<^verbatim>\<open>switch\<close>: the two frame counters, then the run counters.
\<close>

definition update_counters :: "'f vad_state_machine \<Rightarrow> c_int \<Rightarrow> 'f vad_state_machine" where
  "update_counters sm vad_flag =
     (let sm1 = sm\<lparr>total_frame_count := total_frame_count sm + 1\<rparr>;
          sm2 = sm1\<lparr>current_state_frames := current_state_frames sm1 + 1\<rparr>
      in if vad_flag \<noteq> 0 then
           sm2\<lparr>speech_frame_count := speech_frame_count sm2 + 1,
               silence_frame_count := 0,
               last_speech_frame := total_frame_count sm2\<rparr>
         else
           sm2\<lparr>silence_frame_count := silence_frame_count sm2 + 1,
               speech_frame_count := 0\<rparr>)"

text \<open>The \<^verbatim>\<open>switch\<close> on the current state.\<close>

definition state_logic ::
  "'f float_ops \<Rightarrow> 'f vad_state_machine \<Rightarrow> c_int \<Rightarrow> 'f vad_state_machine \<times> event list" where
  "state_logic F sm vad_flag =
     (case current_state sm of
        VAD_STATE_SILENCE \<Rightarrow>
          if int_ge (speech_frame_count sm) (speech_start_frames (config sm)) then
            change_state
              (sm\<lparr>speech_start_frame := total_frame_count sm - speech_frame_count sm + 1\<rparr>)
              VAD_STATE_SPEECH_START
          else (sm, [])
      | VAD_STATE_SPEECH_START \<Rightarrow>
          if vad_flag \<noteq> 0 then change_state sm VAD_STATE_SPEECH_CONTINUE
          else if int_ge (silence_frame_count sm) (speech_end_frames (config sm)) then
            let speech_duration =
                  fl_mul F (fl_of_int F (current_state_frames sm)) (frame_duration_ms sm)
            in if fl_lt F speech_duration (min_speech_duration_ms (config sm)) then
                 change_state sm VAD_STATE_SILENCE
               else change_state sm VAD_STATE_SPEECH_END
          else (sm, [])
      | VAD_STATE_SPEECH_CONTINUE \<Rightarrow>
          if int_ge (silence_frame_count sm) (pause_frames (config sm)) then
            change_state sm VAD_STATE_SPEECH_PAUSE
          else (sm, [])
      | VAD_STATE_SPEECH_PAUSE \<Rightarrow>
          if int_ge (speech_frame_count sm) (pause_resume_frames (config sm)) then
            change_state sm VAD_STATE_SPEECH_CONTINUE
          else if fl_ge F
                    (fl_mul F (fl_of_int F (silence_frame_count sm)) (frame_duration_ms sm))
                    (max_pause_duration_ms (config sm)) then
            change_state sm VAD_STATE_SPEECH_END
          else (sm, [])
      | VAD_STATE_SPEECH_END \<Rightarrow>
          if int_ge (speech_frame_count sm) (speech_start_frames (config sm)) then
            change_state
              (sm\<lparr>speech_start_frame := total_frame_count sm - speech_frame_count sm + 1\<rparr>)
              VAD_STATE_SPEECH_START
          else change_state sm VAD_STATE_SILENCE)"

text \<open>
  The whole function: the null check, the counters, the \<^verbatim>\<open>switch\<close>, and the return of
  the current state. The result is the returned state, the handle with the structure as
  the call left it, and what the call emitted.
\<close>

definition vad_state_machine_process ::
  "'f float_ops \<Rightarrow> 'f vad_state_machine option \<Rightarrow> c_int \<Rightarrow> 'f \<Rightarrow>
   vad_state_t \<times> 'f vad_state_machine option \<times> event list" where
  "vad_state_machine_process F h vad_flag probability =
     (case h of
        None \<Rightarrow> (VAD_STATE_SILENCE, None, [])
      | Some sm \<Rightarrow>
          (case state_logic F (update_counters sm vad_flag) vad_flag of
             (sm', evs) \<Rightarrow> (current_state sm', Some sm', evs)))"

text \<open>\<^verbatim>\<open>vad_state_machine_get_current_state\<close>\<close>

definition vad_state_machine_get_current_state ::
  "'f vad_state_machine option \<Rightarrow> vad_state_t" where
  "vad_state_machine_get_current_state h =
     (case h of Some sm \<Rightarrow> current_state sm | None \<Rightarrow> VAD_STATE_SILENCE)"

text \<open>\<^verbatim>\<open>vad_state_machine_get_current_state_duration\<close>\<close>

definition vad_state_machine_get_current_state_duration ::
  "'f float_ops \<Rightarrow> 'f vad_state_machine option \<Rightarrow> 'f" where
  "vad_state_machine_get_current_state_duration F h =
     (case h of
        None \<Rightarrow> fl_const F 0
      | Some sm \<Rightarrow> fl_mul F (fl_of_int F (current_state_frames sm)) (frame_duration_ms sm))"

text \<open>
  \<^verbatim>\<open>vad_state_machine_reset\<close>: the handle after the call and what the call emitted
  (the function calls neither the callback nor \<^verbatim>\<open>printf\<close>).
\<close>

definition vad_state_machine_reset ::
  "'f vad_state_machine option \<Rightarrow> 'f vad_state_machine option \<times> event list" where
  "vad_state_machine_reset h =
     (case h of
        None \<Rightarrow> (None, [])
      | Some sm \<Rightarrow>
          (Some (sm\<lparr>current_state := VAD_STATE_SILENCE,
                    previous_state := VAD_STATE_SILENCE,
                    speech_frame_count := 0,
                    silence_frame_count := 0,
                    total_frame_count := 0,
                    current_state_frames := 0,
                    speech_start_frame := - 1,
                    last_speech_frame := - 1\<rparr>), []))"

text \<open>
  The caller's loop (\<^verbatim>\<open>vad_state_example.c\<close>): one call of
  \<^verbatim>\<open>vad_state_machine_process\<close> per frame, in order. The result is the handle after the
  last call and, per call, the returned state and the emitted events.
\<close>

fun process_frames ::
  "'f float_ops \<Rightarrow> 'f vad_state_machine option \<Rightarrow> (c_int \<times> 'f) list \<Rightarrow>
   'f vad_state_machine option \<times> (vad_state_t \<times> event list) list" where
  "process_frames F h [] = (h, [])"
| "process_frames F h (fr # frs) =
     (case vad_state_machine_process F h (fst fr) (snd fr) of
        (st, h', evs) \<Rightarrow>
          (case process_frames F h' frs of
             (h'', outs) \<Rightarrow> (h'', (st, evs) # outs)))"

text \<open>
  A history of calls on one handle, where the caller also resets: each call is either
  \<^verbatim>\<open>vad_state_machine_process\<close> with its flag and probability or
  \<^verbatim>\<open>vad_state_machine_reset\<close>. The result is the handle after the last call and, per
  call, what it returned and emitted.
\<close>

datatype 'f api_call = Process c_int 'f | Reset

datatype outcome = Processed vad_state_t "event list" | Was_reset "event list"

fun run_calls ::
  "'f float_ops \<Rightarrow> 'f vad_state_machine option \<Rightarrow> 'f api_call list \<Rightarrow>
   'f vad_state_machine option \<times> outcome list" where
  "run_calls F h [] = (h, [])"
| "run_calls F h (Process vad_flag probability # cs) =
     (case vad_state_machine_process F h vad_flag probability of
        (st, h', evs) \<Rightarrow>
          (case run_calls F h' cs of
             (h'', outs) \<Rightarrow> (h'', Processed st evs # outs)))"
| "run_calls F h (Reset # cs) =
     (case vad_state_machine_reset h of
        (h', evs) \<Rightarrow>
          (case run_calls F h' cs of
             (h'', outs) \<Rightarrow> (h'', Was_reset evs # outs)))"

section \<open>The specification's readings\<close>

text \<open>
  The elapsed time in the current state, as the specification defines it:
  \<open>current_state_frames * frame_duration_ms\<close>.
\<close>

definition elapsed_ms :: "'f float_ops \<Rightarrow> 'f vad_state_machine \<Rightarrow> 'f" where
  "elapsed_ms F sm = fl_mul F (fl_of_int F (current_state_frames sm)) (frame_duration_ms sm)"

text \<open>
  The transition table of the specification, row by row and in its order: the state the
  row starts from, its condition on the classifier (read after the run counters have been
  updated) and on the flag of the frame, and the state it leads to. Rows 3 and 4 share
  the silence threshold and split on whether the elapsed duration is below the minimum
  speech duration (for ordered operands "not below" is the table's \<open>\<ge>\<close>; an unordered
  comparison falls under row 4); row 9 is the table's "otherwise".
\<close>

definition transition_table ::
  "(vad_state_t \<times> ('f float_ops \<Rightarrow> 'f vad_state_machine \<Rightarrow> c_int \<Rightarrow> bool) \<times> vad_state_t) list" where
  "transition_table =
     [(VAD_STATE_SILENCE,
         (\<lambda>F sm flag. int_ge (speech_frame_count sm) (speech_start_frames (config sm))),
       VAD_STATE_SPEECH_START),
      (VAD_STATE_SPEECH_START,
         (\<lambda>F sm flag. flag \<noteq> 0),
       VAD_STATE_SPEECH_CONTINUE),
      (VAD_STATE_SPEECH_START,
         (\<lambda>F sm flag. int_ge (silence_frame_count sm) (speech_end_frames (config sm))
            \<and> fl_lt F (elapsed_ms F sm) (min_speech_duration_ms (config sm))),
       VAD_STATE_SILENCE),
      (VAD_STATE_SPEECH_START,
         (\<lambda>F sm flag. int_ge (silence_frame_count sm) (speech_end_frames (config sm))
            \<and> \<not> fl_lt F (elapsed_ms F sm) (min_speech_duration_ms (config sm))),
       VAD_STATE_SPEECH_END),
      (VAD_STATE_SPEECH_CONTINUE,
         (\<lambda>F sm flag. int_ge (silence_frame_count sm) (pause_frames (config sm))),
       VAD_STATE_SPEECH_PAUSE),
      (VAD_STATE_SPEECH_PAUSE,
         (\<lambda>F sm flag. int_ge (speech_frame_count sm) (pause_resume_frames (config sm))),
       VAD_STATE_SPEECH_CONTINUE),
      (VAD_STATE_SPEECH_PAUSE,
         (\<lambda>F sm flag. fl_ge F
            (fl_mul F (fl_of_int F (silence_frame_count sm)) (frame_duration_ms sm))
            (max_pause_duration_ms (config sm))),
       VAD_STATE_SPEECH_END),
      (VAD_STATE_SPEECH_END,
         (\<lambda>F sm flag. int_ge (speech_frame_count sm) (speech_start_frames (config sm))),
       VAD_STATE_SPEECH_START),
      (VAD_STATE_SPEECH_END,
         (\<lambda>F sm flag. \<not> int_ge (speech_frame_count sm) (speech_start_frames (config sm))),
       VAD_STATE_SILENCE)]"

text \<open>The table is read top to bottom: the first row of the current state that applies.\<close>

definition table_lookup ::
  "'f float_ops \<Rightarrow> 'f vad_state_machine \<Rightarrow> c_int \<Rightarrow> vad_state_t option" where
  "table_lookup F sm flag =
     map_option (\<lambda>row. snd (snd row))
       (find (\<lambda>row. fst row = current_state sm \<and> fst (snd row) F sm flag) transition_table)"

text \<open>
  A processing call fired a transition exactly when it emitted something
  (\<^verbatim>\<open>change_state\<close> prints a line on every transition). In a history of calls, a
  call is quiet when it is a processing call that fired no transition;
  \<open>calls_since_restart\<close> counts the processing calls made after the last transition or
  reset (all calls, if there was neither).
\<close>

fun quiet :: "outcome \<Rightarrow> bool" where
  "quiet (Processed st evs) = (evs = [])"
| "quiet (Was_reset evs) = False"

definition calls_since_restart :: "outcome list \<Rightarrow> nat" where
  "calls_since_restart outs = length (takeWhile quiet (rev outs))"

text \<open>
  The same count over a run of processing calls only (\<open>calls_since_transition\<close>), and
  the count the specification words (\<open>calls_since_entry\<close>): with the call that caused
  entry counted in.
\<close>

definition calls_since_transition :: "(vad_state_t \<times> event list) list \<Rightarrow> nat" where
  "calls_since_transition outs = length (takeWhile (\<lambda>out. snd out = []) (rev outs))"

definition calls_since_entry :: "(vad_state_t \<times> event list) list \<Rightarrow> nat" where
  "calls_since_entry outs =
     (if list_all (\<lambda>out. snd out = []) outs then length outs
      else calls_since_transition outs + 1)"

text \<open>
  Concrete classifiers for evaluating single calls: the default configuration, 256
  samples per frame at 16 kHz (16 ms per frame), a registered callback.
\<close>

definition example_machine ::
  "vad_state_t \<Rightarrow> c_int \<Rightarrow> c_int \<Rightarrow> c_int \<Rightarrow> rat vad_state_machine" where
  "example_machine st speech silence frames =
     \<lparr> config = default_config exact_ops, hop_size = 256, sample_rate = 16000,
       frame_duration_ms = 16,
       current_state = st, previous_state = VAD_STATE_SPEECH_PAUSE,
       speech_frame_count = speech, silence_frame_count = silence, total_frame_count = 100,
       current_state_frames = frames, speech_start_frame = 1, last_speech_frame = 37,
       callback = Some 1, user_data = 0 \<rparr>"

text \<open>The configuration of the short-burst scenario: the defaults with 5 end frames.\<close>

definition short_burst_config :: "rat vad_state_config_t" where
  "short_burst_config = (default_config exact_ops)\<lparr>speech_end_frames := 5\<rparr>"

section \<open>Basic facts about the operations\<close>

lemma change_state_other:
  "current_state sm \<noteq> s \<Longrightarrow>
   change_state sm s =
     (sm\<lparr>previous_state := current_state sm, current_state := s, current_state_frames := 0\<rparr>,
      (case callback sm of
         Some f \<Rightarrow> [Callback f (current_state sm) s (user_data sm)]
       | None \<Rightarrow> [])
      @ [Printf (vad_state_get_name (current_state sm)) (vad_state_get_name s)
           (total_frame_count sm)])"
  by (simp add: change_state_def Let_def split: option.split)

lemma update_counters_state [simp]:
  "current_state (update_counters sm flag) = current_state sm"
  by (simp add: update_counters_def Let_def)

lemma update_counters_frames [simp]:
  "current_state_frames (update_counters sm flag) = current_state_frames sm + 1"
  by (simp add: update_counters_def Let_def)

lemma state_logic_preserves:
  "state_logic F sm flag = (sm', evs) \<Longrightarrow>
   config sm' = config sm \<and> hop_size sm' = hop_size sm \<and> sample_rate sm' = sample_rate sm \<and>
   frame_duration_ms sm' = frame_duration_ms sm \<and> callback sm' = callback sm \<and>
   user_data sm' = user_data sm \<and> speech_frame_count sm' = speech_frame_count sm \<and>
   silence_frame_count sm' = silence_frame_count sm \<and>
   total_frame_count sm' = total_frame_count sm \<and> last_speech_frame sm' = last_speech_frame sm"
  by (cases "current_state sm")
     (auto simp add: state_logic_def change_state_def Let_def split: if_splits)

lemma state_logic_events:
  "state_logic F sm flag = (sm', evs) \<Longrightarrow>
   (current_state sm' = current_state sm \<and> previous_state sm' = previous_state sm \<and>
    current_state_frames sm' = current_state_frames sm \<and> evs = []) \<or>
   (current_state sm' \<noteq> current_state sm \<and> previous_state sm' = current_state sm \<and>
    current_state_frames sm' = 0 \<and>
    evs = (case callback sm of
             Some f \<Rightarrow> [Callback f (current_state sm) (current_state sm') (user_data sm)]
           | None \<Rightarrow> [])
          @ [Printf (vad_state_get_name (current_state sm))
               (vad_state_get_name (current_state sm')) (total_frame_count sm)])"
  by (cases "current_state sm")
     (auto simp add: state_logic_def change_state_def Let_def split: if_splits option.splits)

lemma update_counters_fixed:
  "config (update_counters sm flag) = config sm \<and>
   hop_size (update_counters sm flag) = hop_size sm \<and>
   sample_rate (update_counters sm flag) = sample_rate sm \<and>
   frame_duration_ms (update_counters sm flag) = frame_duration_ms sm \<and>
   callback (update_counters sm flag) = callback sm \<and>
   user_data (update_counters sm flag) = user_data sm \<and>
   previous_state (update_counters sm flag) = previous_state sm"
  by (simp add: update_counters_def Let_def)

lemma update_counters_run:
  "speech_frame_count (update_counters sm flag) =
     (if flag \<noteq> 0 then speech_frame_count sm + 1 else 0) \<and>
   silence_frame_count (update_counters sm flag) =
     (if flag \<noteq> 0 then 0 else silence_frame_count sm + 1) \<and>
   total_frame_count (update_counters sm flag) = total_frame_count sm + 1"
  by (simp add: update_counters_def Let_def)

lemma process_step:
  "\<exists>sm' evs.
     vad_state_machine_process F (Some sm) flag p = (current_state sm', Some sm', evs) \<and>
     state_logic F (update_counters sm flag) flag = (sm', evs)"
  by (simp add: vad_state_machine_process_def split: prod.split)

lemma process_frames_None: "process_frames F None frames = (None, map (\<lambda>fr. (VAD_STATE_SILENCE, [])) frames)"
  by (induction frames) (simp_all add: vad_state_machine_process_def)

lemma process_frames_Cons:
  "vad_state_machine_process F h (fst fr) (snd fr) = (st, h', evs) \<Longrightarrow>
   process_frames F h (fr # frs) =
     (fst (process_frames F h' frs), (st, evs) # snd (process_frames F h' frs))"
  by (simp split: prod.split)

lemma process_frames_fixed:
  "\<exists>sm'. fst (process_frames F (Some sm) frames) = Some sm' \<and>
     config sm' = config sm \<and> hop_size sm' = hop_size sm \<and> sample_rate sm' = sample_rate sm \<and>
     frame_duration_ms sm' = frame_duration_ms sm \<and> callback sm' = callback sm \<and>
     user_data sm' = user_data sm"
proof (induction frames arbitrary: sm)
  case Nil
  show ?case by simp
next
  case (Cons fr frs)
  obtain sm1 evs where
    p: "vad_state_machine_process F (Some sm) (fst fr) (snd fr) = (current_state sm1, Some sm1, evs)"
    and s: "state_logic F (update_counters sm (fst fr)) (fst fr) = (sm1, evs)"
    using process_step [of F sm "fst fr" "snd fr"] by blast
  from state_logic_preserves [OF s] update_counters_fixed [of sm "fst fr"]
  have fixed: "config sm1 = config sm" "hop_size sm1 = hop_size sm"
    "sample_rate sm1 = sample_rate sm" "frame_duration_ms sm1 = frame_duration_ms sm"
    "callback sm1 = callback sm" "user_data sm1 = user_data sm"
    by simp_all
  from Cons.IH [of sm1] obtain sm' where
    "fst (process_frames F (Some sm1) frs) = Some sm'"
    "config sm' = config sm1" "hop_size sm' = hop_size sm1" "sample_rate sm' = sample_rate sm1"
    "frame_duration_ms sm' = frame_duration_ms sm1" "callback sm' = callback sm1"
    "user_data sm' = user_data sm1"
    by blast
  with fixed show ?case by (simp add: process_frames_Cons [OF p] del: process_frames.simps)
qed

lemma reset_Some:
  "vad_state_machine_reset (Some sm) =
     (Some \<lparr> config = config sm, hop_size = hop_size sm, sample_rate = sample_rate sm,
             frame_duration_ms = frame_duration_ms sm,
             current_state = VAD_STATE_SILENCE, previous_state = VAD_STATE_SILENCE,
             speech_frame_count = 0, silence_frame_count = 0, total_frame_count = 0,
             current_state_frames = 0, speech_start_frame = - 1, last_speech_frame = - 1,
             callback = callback sm, user_data = user_data sm \<rparr>, [])"
  by (cases sm) (simp add: vad_state_machine_reset_def)

lemma sint_of_nat_small:
  "n < 2 ^ 31 \<Longrightarrow> sint (of_nat n :: c_int) = int n"
proof -
  assume n: "n < 2 ^ 31"
  then have "int n < 2 ^ 31" by (metis of_nat_less_numeral_power_cancel_iff)
  then have "signed_take_bit 31 (int n) = int n"
    by (simp add: signed_take_bit_int_eq_self)
  then show ?thesis by (simp add: signed_of_nat)
qed

lemma run_calls_Process:
  "vad_state_machine_process F h vad_flag p = (st, h', evs) \<Longrightarrow>
   run_calls F h (Process vad_flag p # cs) =
     (fst (run_calls F h' cs), Processed st evs # snd (run_calls F h' cs))"
  by (simp split: prod.split)

lemma run_calls_Reset:
  "vad_state_machine_reset h = (h', evs) \<Longrightarrow>
   run_calls F h (Reset # cs) =
     (fst (run_calls F h' cs), Was_reset evs # snd (run_calls F h' cs))"
  by (simp split: prod.split)

lemma run_calls_length: "length (snd (run_calls F h cs)) = length cs"
proof (induction cs arbitrary: h)
  case Nil
  show ?case by simp
next
  case (Cons c cs)
  show ?case
  proof (cases c)
    case (Process vad_flag p)
    obtain st h' evs where "vad_state_machine_process F h vad_flag p = (st, h', evs)"
      by (metis prod_cases3)
    then show ?thesis
      using Cons.IH [of h'] Process by (simp add: run_calls_Process del: run_calls.simps)
  next
    case Reset
    obtain h' evs where "vad_state_machine_reset h = (h', evs)"
      by (metis surj_pair)
    then show ?thesis
      using Cons.IH [of h'] Reset by (simp add: run_calls_Reset del: run_calls.simps)
  qed
qed

lemma calls_since_restart_Cons:
  "calls_since_restart (out # outs) =
     (if list_all quiet outs
      then (if quiet out then Suc (length outs) else length outs)
      else calls_since_restart outs)"
proof (cases "list_all quiet outs")
  case True
  then have "\<And>x. x \<in> set (rev outs) \<Longrightarrow> quiet x" by (simp add: list_all_iff)
  then have "takeWhile quiet (rev outs @ [out]) = rev outs @ takeWhile quiet [out]"
    by (rule takeWhile_append2)
  with True show ?thesis by (simp add: calls_since_restart_def)
next
  case False
  then obtain x where "x \<in> set (rev outs)" "\<not> quiet x" by (auto simp add: list_all_iff)
  then have "takeWhile quiet (rev outs @ [out]) = takeWhile quiet (rev outs)"
    by (simp add: takeWhile_append1)
  with False show ?thesis by (simp add: calls_since_restart_def)
qed

lemma calls_since_restart_le: "calls_since_restart outs \<le> length outs"
  by (metis calls_since_restart_def length_rev length_takeWhile_le)

lemma calls_since_restart_quiet:
  "list_all quiet outs \<Longrightarrow> calls_since_restart outs = length outs"
proof -
  assume "list_all quiet outs"
  then have "takeWhile quiet (rev outs) = rev outs" by (simp add: list_all_iff)
  then show ?thesis by (metis calls_since_restart_def length_rev)
qed

lemma run_calls_counter:
  "\<exists>sm'. fst (run_calls F (Some sm) cs) = Some sm' \<and>
     current_state_frames sm' =
       (if list_all quiet (snd (run_calls F (Some sm) cs))
        then current_state_frames sm + of_nat (length cs)
        else of_nat (calls_since_restart (snd (run_calls F (Some sm) cs))))"
proof (induction cs arbitrary: sm)
  case Nil
  show ?case by simp
next
  case (Cons c cs)
  show ?case
  proof (cases c)
    case (Process vad_flag p)
    obtain sm1 evs where
      p: "vad_state_machine_process F (Some sm) vad_flag p = (current_state sm1, Some sm1, evs)"
      and s: "state_logic F (update_counters sm vad_flag) vad_flag = (sm1, evs)"
      using process_step [of F sm vad_flag p] by blast
    from state_logic_events [OF s]
    have step: "current_state_frames sm1 = (if evs = [] then current_state_frames sm + 1 else 0)"
      by (auto split: option.splits)
    from Cons.IH [of sm1] obtain sm' where
      h: "fst (run_calls F (Some sm1) cs) = Some sm'" and
      c: "current_state_frames sm' =
         (if list_all quiet (snd (run_calls F (Some sm1) cs))
          then current_state_frames sm1 + of_nat (length cs)
          else of_nat (calls_since_restart (snd (run_calls F (Some sm1) cs))))"
      by blast
    have len: "length (snd (run_calls F (Some sm1) cs)) = length cs"
      by (rule run_calls_length)
    from h c step len Process show ?thesis
      by (simp add: run_calls_Process [OF p] calls_since_restart_Cons del: run_calls.simps)
  next
    case Reset
    obtain sm1 where
      r: "vad_state_machine_reset (Some sm) = (Some sm1, [])"
      and z: "current_state_frames sm1 = 0"
      by (simp add: reset_Some)
    from Cons.IH [of sm1] obtain sm' where
      h: "fst (run_calls F (Some sm1) cs) = Some sm'" and
      c: "current_state_frames sm' =
         (if list_all quiet (snd (run_calls F (Some sm1) cs))
          then current_state_frames sm1 + of_nat (length cs)
          else of_nat (calls_since_restart (snd (run_calls F (Some sm1) cs))))"
      by blast
    have len: "length (snd (run_calls F (Some sm1) cs)) = length cs"
      by (rule run_calls_length)
    from h c z len Reset show ?thesis
      by (simp add: run_calls_Reset [OF r] calls_since_restart_Cons del: run_calls.simps)
  qed
qed

section \<open>The transition table\<close>

text \<open>
  C1. For every classifier state and every frame, one call to
  \<^verbatim>\<open>vad_state_machine_process\<close> on a live handle returns, with the run counters
  updated first, and moves \<open>current_state\<close> as the nine-row table says, read on the
  updated counters: to the target of the first applicable row of the current state (the
  target differs from the current state and \<open>current_state_frames\<close> restarts at 0), and
  where no row applies the state stays, \<open>current_state_frames\<close> is one more than before
  and nothing is emitted. The returned state is the state the call leaves.
\<close>

theorem process_follows_transition_table:
  "\<exists>sm' evs.
     vad_state_machine_process F (Some sm) vad_flag p = (current_state sm', Some sm', evs) \<and>
     speech_frame_count sm' = speech_frame_count (update_counters sm vad_flag) \<and>
     silence_frame_count sm' = silence_frame_count (update_counters sm vad_flag) \<and>
     (case table_lookup F (update_counters sm vad_flag) vad_flag of
        Some new_state \<Rightarrow>
          current_state sm' = new_state \<and> new_state \<noteq> current_state sm \<and>
          current_state_frames sm' = 0
      | None \<Rightarrow>
          current_state sm' = current_state sm \<and>
          current_state_frames sm' = current_state_frames sm + 1 \<and> evs = [])"
  by (cases "current_state sm")
     (simp_all add: vad_state_machine_process_def state_logic_def table_lookup_def
        transition_table_def elapsed_ms_def change_state_other Let_def)

text \<open>
  At a classifier in SILENCE that has seen two voiced frames, a third voiced frame
  enables row 1.
\<close>

theorem process_follows_transition_table_witness:
  "table_lookup exact_ops
     (update_counters (example_machine VAD_STATE_SILENCE 2 0 100) 1) 1
     = Some VAD_STATE_SPEECH_START \<and>
   (\<exists>sm' evs.
      vad_state_machine_process exact_ops (Some (example_machine VAD_STATE_SILENCE 2 0 100)) 1 0
        = (VAD_STATE_SPEECH_START, Some sm', evs) \<and>
      speech_frame_count sm' = 3 \<and> current_state_frames sm' = 0)"
proof -
  have t: "table_lookup exact_ops
     (update_counters (example_machine VAD_STATE_SILENCE 2 0 100) 1) 1
     = Some VAD_STATE_SPEECH_START"
    by (simp add: table_lookup_def transition_table_def update_counters_def
          example_machine_def default_config_def int_ge_def Let_def)
  have u: "speech_frame_count (update_counters (example_machine VAD_STATE_SILENCE 2 0 100) 1) = 3"
    by (simp add: update_counters_def example_machine_def Let_def)
  from process_follows_transition_table
         [of exact_ops "example_machine VAD_STATE_SILENCE 2 0 100" 1 0] t u
  show ?thesis by auto
qed

section \<open>Short bursts\<close>

text \<open>
  C2. With \<open>speech_start_frames = 3\<close>, \<open>speech_end_frames = 5\<close>,
  \<open>min_speech_duration_ms = 200\<close> and a frame duration of 16 ms (the other settings, the
  callback and the probabilities are arbitrary), three voiced frames followed by five
  silent frames on a freshly constructed classifier leave it in SILENCE: the third frame
  enters SPEECH_START, the eighth rejects the episode (5 * 16 = 80 ms is below 200 ms),
  and SPEECH_END is never returned.
\<close>

theorem short_burst_rejected:
  assumes "speech_start_frames cfg = 3" and "speech_end_frames cfg = 5"
    and "min_speech_duration_ms cfg = 200"
    and "vad_state_machine_create exact_ops True (Some cfg) hop sr cb ud = Some sm0"
    and "frame_duration_ms sm0 = 16"
  shows "vad_state_machine_get_current_state
           (fst (process_frames exact_ops (Some sm0)
              [(1, p1), (1, p2), (1, p3), (0, q1), (0, q2), (0, q3), (0, q4), (0, q5)]))
         = VAD_STATE_SILENCE \<and>
         map fst (snd (process_frames exact_ops (Some sm0)
              [(1, p1), (1, p2), (1, p3), (0, q1), (0, q2), (0, q3), (0, q4), (0, q5)]))
         = [VAD_STATE_SILENCE, VAD_STATE_SILENCE, VAD_STATE_SPEECH_START,
            VAD_STATE_SPEECH_START, VAD_STATE_SPEECH_START, VAD_STATE_SPEECH_START,
            VAD_STATE_SPEECH_START, VAD_STATE_SILENCE]"
proof -
  from assms(4,5) have sm0: "sm0 =
     \<lparr> config = cfg, hop_size = hop, sample_rate = sr, frame_duration_ms = 16,
       current_state = VAD_STATE_SILENCE, previous_state = VAD_STATE_SILENCE,
       speech_frame_count = 0, silence_frame_count = 0, total_frame_count = 0,
       current_state_frames = 0, speech_start_frame = - 1, last_speech_frame = - 1,
       callback = cb, user_data = ud \<rparr>"
    by (auto simp add: vad_state_machine_create_def)
  show ?thesis
    unfolding sm0
    by (simp add: assms(1-3) vad_state_machine_process_def state_logic_def
          update_counters_def change_state_def vad_state_machine_get_current_state_def
          exact_ops_def int_ge_def Let_def)
qed

text \<open>The scenario at 256 samples per frame and 16 kHz.\<close>

theorem short_burst_rejected_witness:
  "speech_start_frames short_burst_config = 3 \<and> speech_end_frames short_burst_config = 5 \<and>
   min_speech_duration_ms short_burst_config = 200 \<and>
   frame_duration_ms (the (vad_state_machine_create exact_ops True (Some short_burst_config)
      256 16000 None 0)) = 16 \<and>
   vad_state_machine_get_current_state
     (fst (process_frames exact_ops
        (vad_state_machine_create exact_ops True (Some short_burst_config) 256 16000 None 0)
        [(1, 0), (1, 0), (1, 0), (0, 0), (0, 0), (0, 0), (0, 0), (0, 0)]))
     = VAD_STATE_SILENCE"
proof -
  have c: "speech_start_frames short_burst_config = 3"
    "speech_end_frames short_burst_config = 5"
    "min_speech_duration_ms short_burst_config = 200"
    by (simp_all add: short_burst_config_def default_config_def exact_ops_def)
  obtain sm0 where
    sm0: "vad_state_machine_create exact_ops True (Some short_burst_config) 256 16000 None 0
            = Some sm0"
    by (simp add: vad_state_machine_create_def)
  then have d: "frame_duration_ms sm0 = 16"
    by (auto simp add: vad_state_machine_create_def exact_ops_def)
  from short_burst_rejected [OF c sm0 d, of 0 0 0 0 0 0 0 0] c d sm0
  show ?thesis by simp
qed

section \<open>The frame counter of the current state\<close>

text \<open>
  C3, as amended. After any history of processing calls and resets on a constructed
  classifier, \<open>current_state_frames\<close> is the number of processing calls made since the
  last state transition or reset, the call on which the transition fired not counted
  (all calls since construction, if there was neither): as a 32-bit value always, and as
  a number for fewer than \<open>2 ^ 31\<close> calls. Immediately after a call on which a
  transition fired, and after a reset, it is 0.
\<close>

theorem current_state_frames_counts_calls:
  "run_calls F (vad_state_machine_create F True cfg hop sr cb ud) cs = (h', outs) \<Longrightarrow>
   \<exists>sm'. h' = Some sm' \<and>
     current_state_frames sm' = of_nat (calls_since_restart outs) \<and>
     (length cs < 2 ^ 31 \<longrightarrow>
        sint (current_state_frames sm') = int (calls_since_restart outs)) \<and>
     (outs \<noteq> [] \<and> \<not> quiet (last outs) \<longrightarrow> current_state_frames sm' = 0)"
proof -
  assume run: "run_calls F (vad_state_machine_create F True cfg hop sr cb ud) cs = (h', outs)"
  obtain sm0 where sm0: "vad_state_machine_create F True cfg hop sr cb ud = Some sm0"
    and z: "current_state_frames sm0 = 0"
    by (simp add: vad_state_machine_create_def)
  from run_calls_counter [of F sm0 cs] run sm0 obtain sm' where
    h: "h' = Some sm'" and
    c: "current_state_frames sm' =
       (if list_all quiet outs
        then current_state_frames sm0 + of_nat (length cs)
        else of_nat (calls_since_restart outs))"
    by auto
  from run sm0 have len: "length outs = length cs"
    using run_calls_length [of F "Some sm0" cs] by simp
  from c z len calls_since_restart_quiet [of outs]
  have eq: "current_state_frames sm' = of_nat (calls_since_restart outs)"
    by (simp split: if_splits)
  have small: "sint (current_state_frames sm') = int (calls_since_restart outs)"
    if "length cs < 2 ^ 31"
  proof -
    from that len calls_since_restart_le [of outs]
    have "calls_since_restart outs < 2 ^ 31" by simp
    with eq show ?thesis by (simp add: sint_of_nat_small)
  qed
  have fired: "current_state_frames sm' = 0" if "outs \<noteq> []" "\<not> quiet (last outs)"
  proof -
    from that have "calls_since_restart outs = 0"
      by (cases outs rule: rev_cases) (simp_all add: calls_since_restart_def)
    with eq show ?thesis by simp
  qed
  from h eq small fired show ?thesis by blast
qed

text \<open>
  Two voiced frames, a reset, then three voiced and two silent frames under the default
  configuration: the third voiced call after the reset enters SPEECH_START, two calls
  follow.
\<close>

theorem current_state_frames_counts_calls_witness:
  "length [Process 1 0, Process 1 0, Reset, Process 1 0, Process 1 0, Process 1 0,
           Process 0 0, Process 0 (0 :: rat)] < 2 ^ 31 \<and>
   calls_since_restart (snd (run_calls exact_ops
       (vad_state_machine_create exact_ops True None 256 16000 None 0)
       [Process 1 0, Process 1 0, Reset, Process 1 0, Process 1 0, Process 1 0,
        Process 0 0, Process 0 0])) = 2 \<and>
   (\<exists>sm'. fst (run_calls exact_ops
       (vad_state_machine_create exact_ops True None 256 16000 None 0)
       [Process 1 0, Process 1 0, Reset, Process 1 0, Process 1 0, Process 1 0,
        Process 0 0, Process 0 0]) = Some sm' \<and>
     sint (current_state_frames sm') = 2)"
proof -
  have n: "calls_since_restart (snd (run_calls exact_ops
       (vad_state_machine_create exact_ops True None 256 16000 None 0)
       [Process 1 0, Process 1 0, Reset, Process 1 0, Process 1 0, Process 1 0,
        Process 0 0, Process 0 0])) = 2"
    by code_simp
  have l: "length [Process 1 0, Process 1 0, Reset, Process 1 0, Process 1 0, Process 1 0,
           Process 0 0, Process 0 (0 :: rat)] < 2 ^ 31"
    by simp
  have r: "run_calls exact_ops
       (vad_state_machine_create exact_ops True None 256 16000 None 0)
       [Process 1 0, Process 1 0, Reset, Process 1 0, Process 1 0, Process 1 0,
        Process 0 0, Process 0 0] =
     (fst (run_calls exact_ops
       (vad_state_machine_create exact_ops True None 256 16000 None 0)
       [Process 1 0, Process 1 0, Reset, Process 1 0, Process 1 0, Process 1 0,
        Process 0 0, Process 0 0]),
      snd (run_calls exact_ops
       (vad_state_machine_create exact_ops True None 256 16000 None 0)
       [Process 1 0, Process 1 0, Reset, Process 1 0, Process 1 0, Process 1 0,
        Process 0 0, Process 0 0]))"
    by (rule prod.collapse [symmetric])
  from current_state_frames_counts_calls [OF r] l n show ?thesis
    by auto
qed

text \<open>
  The count with the entering call included is 1 right after a transition, and the field
  is 0: the third voiced frame under the default configuration enters SPEECH_START.
\<close>

theorem current_state_frames_inclusive_counterexample:
  "snd (last (snd (process_frames exact_ops
       (vad_state_machine_create exact_ops True None 256 16000 None 0)
       [(1, 0), (1, 0), (1, 0)]))) \<noteq> [] \<and>
   map_option current_state_frames (fst (process_frames exact_ops
       (vad_state_machine_create exact_ops True None 256 16000 None 0)
       [(1, 0), (1, 0), (1, 0)])) = Some 0 \<and>
   calls_since_entry (snd (process_frames exact_ops
       (vad_state_machine_create exact_ops True None 256 16000 None 0)
       [(1, 0), (1, 0), (1, 0)])) = 1"
  by code_simp

section \<open>Null handles\<close>

text \<open>
  C4, as amended. A call to \<^verbatim>\<open>vad_state_machine_process\<close> with a null handle returns
  \<open>VAD_STATE_SILENCE\<close>: it touches no classifier, emits nothing and signals no error.
\<close>

theorem process_null_handle_returns_silence:
  "vad_state_machine_process F None vad_flag p = (VAD_STATE_SILENCE, None, [])"
  by (simp add: vad_state_machine_process_def)

text \<open>
  A voiced frame sent to the null handle comes back as SILENCE, the very value a live,
  fresh classifier returns for a silent frame.
\<close>

theorem process_null_handle_counterexample:
  "vad_state_machine_process exact_ops None 1 (1 / 2) = (VAD_STATE_SILENCE, None, []) \<and>
   fst (vad_state_machine_process exact_ops None 1 (1 / 2)) =
   fst (vad_state_machine_process exact_ops
          (vad_state_machine_create exact_ops True None 256 16000 None 0) 0 (1 / 2))"
  by (simp add: vad_state_machine_process_def vad_state_machine_create_def state_logic_def
        update_counters_def default_config_def exact_ops_def int_ge_def Let_def)

text \<open>
  C5. With a null handle, \<^verbatim>\<open>vad_state_machine_get_current_state\<close> returns
  \<open>VAD_STATE_SILENCE\<close> and \<^verbatim>\<open>vad_state_machine_get_current_state_duration\<close> returns
  the literal 0.0; both return a value, neither has an error outcome.
\<close>

theorem null_handle_getters:
  "vad_state_machine_get_current_state (None :: 'f vad_state_machine option) = VAD_STATE_SILENCE \<and>
   vad_state_machine_get_current_state_duration F None = fl_const F 0"
  by (simp add: vad_state_machine_get_current_state_def
        vad_state_machine_get_current_state_duration_def)

section \<open>Run counters\<close>

text \<open>
  C6. After every call to \<^verbatim>\<open>vad_state_machine_process\<close> on a live handle, one of
  \<open>speech_frame_count\<close> and \<open>silence_frame_count\<close> is 0: a call with a non-zero flag
  adds one to \<open>speech_frame_count\<close> (in 32-bit arithmetic) and sets \<open>silence_frame_count\<close>
  to 0, a call with flag 0 does the reverse.
\<close>

theorem run_counters_exclusive:
  "\<exists>sm' evs.
     vad_state_machine_process F (Some sm) vad_flag p = (current_state sm', Some sm', evs) \<and>
     (speech_frame_count sm' = 0 \<or> silence_frame_count sm' = 0) \<and>
     (vad_flag \<noteq> 0 \<longrightarrow>
        speech_frame_count sm' = speech_frame_count sm + 1 \<and> silence_frame_count sm' = 0) \<and>
     (vad_flag = 0 \<longrightarrow>
        silence_frame_count sm' = silence_frame_count sm + 1 \<and> speech_frame_count sm' = 0)"
proof -
  obtain sm' evs where
    p: "vad_state_machine_process F (Some sm) vad_flag p = (current_state sm', Some sm', evs)"
    and s: "state_logic F (update_counters sm vad_flag) vad_flag = (sm', evs)"
    using process_step [of F sm vad_flag p] by blast
  from state_logic_preserves [OF s] update_counters_run [of sm vad_flag]
  have "speech_frame_count sm' = (if vad_flag \<noteq> 0 then speech_frame_count sm + 1 else 0)"
    and "silence_frame_count sm' = (if vad_flag \<noteq> 0 then 0 else silence_frame_count sm + 1)"
    by simp_all
  with p show ?thesis by auto
qed

text \<open>A voiced and a silent frame on a classifier in the middle of a speech run of 4.\<close>

theorem run_counters_exclusive_witness:
  "(1 :: c_int) \<noteq> 0 \<and>
   (\<exists>sm' evs.
      vad_state_machine_process exact_ops
        (Some (example_machine VAD_STATE_SPEECH_CONTINUE 4 0 20)) 1 0
        = (current_state sm', Some sm', evs) \<and>
      speech_frame_count sm' = 5 \<and> silence_frame_count sm' = 0) \<and>
   (\<exists>sm' evs.
      vad_state_machine_process exact_ops
        (Some (example_machine VAD_STATE_SPEECH_CONTINUE 4 0 20)) 0 0
        = (current_state sm', Some sm', evs) \<and>
      speech_frame_count sm' = 0 \<and> silence_frame_count sm' = 1)"
  using run_counters_exclusive [of exact_ops "example_machine VAD_STATE_SPEECH_CONTINUE 4 0 20" 1 0]
    run_counters_exclusive [of exact_ops "example_machine VAD_STATE_SPEECH_CONTINUE 4 0 20" 0 0]
  by (auto simp add: example_machine_def)

section \<open>Reset\<close>

text \<open>
  C7. After any sequence of processed frames, \<^verbatim>\<open>vad_state_machine_reset\<close> gives back
  exactly the freshly constructed classifier (same configuration, frame size, sample
  rate, callback and user data) and emits nothing; on a fresh classifier it changes
  nothing. On any classifier it sets \<open>current_state\<close> and \<open>previous_state\<close> to SILENCE,
  the four counters to 0, \<open>speech_start_frame\<close> and \<open>last_speech_frame\<close> to -1, and
  leaves \<open>config\<close>, \<open>hop_size\<close>, \<open>sample_rate\<close>, \<open>frame_duration_ms\<close>, the callback and
  its user data as they were.
\<close>

theorem reset_restores_fresh_state:
  "(let h0 = vad_state_machine_create F alloc_ok cfg hop sr cb ud in
      vad_state_machine_reset (fst (process_frames F h0 frames)) = (h0, []) \<and>
      vad_state_machine_reset h0 = (h0, [])) \<and>
   (\<exists>sm'. vad_state_machine_reset (Some sm) = (Some sm', []) \<and>
      current_state sm' = VAD_STATE_SILENCE \<and> previous_state sm' = VAD_STATE_SILENCE \<and>
      speech_frame_count sm' = 0 \<and> silence_frame_count sm' = 0 \<and>
      total_frame_count sm' = 0 \<and> current_state_frames sm' = 0 \<and>
      speech_start_frame sm' = - 1 \<and> last_speech_frame sm' = - 1 \<and>
      config sm' = config sm \<and> hop_size sm' = hop_size sm \<and>
      sample_rate sm' = sample_rate sm \<and> frame_duration_ms sm' = frame_duration_ms sm \<and>
      callback sm' = callback sm \<and> user_data sm' = user_data sm)"
proof -
  have fields: "\<exists>sm'. vad_state_machine_reset (Some sm) = (Some sm', []) \<and>
      current_state sm' = VAD_STATE_SILENCE \<and> previous_state sm' = VAD_STATE_SILENCE \<and>
      speech_frame_count sm' = 0 \<and> silence_frame_count sm' = 0 \<and>
      total_frame_count sm' = 0 \<and> current_state_frames sm' = 0 \<and>
      speech_start_frame sm' = - 1 \<and> last_speech_frame sm' = - 1 \<and>
      config sm' = config sm \<and> hop_size sm' = hop_size sm \<and>
      sample_rate sm' = sample_rate sm \<and> frame_duration_ms sm' = frame_duration_ms sm \<and>
      callback sm' = callback sm \<and> user_data sm' = user_data sm"
    by (simp add: reset_Some)
  have fresh: "vad_state_machine_reset (fst (process_frames F h0 frames)) = (h0, []) \<and>
      vad_state_machine_reset h0 = (h0, [])"
    if h0: "h0 = vad_state_machine_create F alloc_ok cfg hop sr cb ud" for h0
  proof (cases alloc_ok)
    case False
    with h0 have "h0 = None" by (simp add: vad_state_machine_create_def)
    then show ?thesis by (simp add: process_frames_None vad_state_machine_reset_def)
  next
    case True
    with h0 obtain sm0 where sm0: "h0 = Some sm0"
      by (simp add: vad_state_machine_create_def)
    from process_frames_fixed [of F sm0 frames] obtain sm' where
      sm': "fst (process_frames F (Some sm0) frames) = Some sm'"
        "config sm' = config sm0" "hop_size sm' = hop_size sm0"
        "sample_rate sm' = sample_rate sm0" "frame_duration_ms sm' = frame_duration_ms sm0"
        "callback sm' = callback sm0" "user_data sm' = user_data sm0"
      by blast
    have r0: "vad_state_machine_reset (Some sm0) = (Some sm0, [])"
      using h0 True sm0 by (simp add: reset_Some vad_state_machine_create_def)
    have "vad_state_machine_reset (Some sm') = vad_state_machine_reset (Some sm0)"
      using sm' by (simp add: reset_Some)
    with r0 sm' sm0 show ?thesis by simp
  qed
  from fresh fields show ?thesis by (simp add: Let_def)
qed

text \<open>Reset after a run that has entered SPEECH_CONTINUE, with a callback registered.\<close>

theorem reset_restores_fresh_state_witness:
  "vad_state_machine_reset (fst (process_frames exact_ops
       (vad_state_machine_create exact_ops True None 256 16000 (Some 1) 0)
       [(1, 0), (1, 0), (1, 0), (1, 0)])) =
     (vad_state_machine_create exact_ops True None 256 16000 (Some 1) 0, []) \<and>
   vad_state_machine_get_current_state (fst (process_frames exact_ops
       (vad_state_machine_create exact_ops True None 256 16000 (Some 1) 0)
       [(1, 0), (1, 0), (1, 0), (1, 0)])) = VAD_STATE_SPEECH_CONTINUE"
proof -
  have s: "vad_state_machine_get_current_state (fst (process_frames exact_ops
       (vad_state_machine_create exact_ops True None 256 16000 (Some 1) 0)
       [(1, 0), (1, 0), (1, 0), (1, 0)])) = VAD_STATE_SPEECH_CONTINUE"
    by code_simp
  note r = reset_restores_fresh_state
         [of exact_ops True None 256 16000 "Some 1" 0 "[(1, 0), (1, 0), (1, 0), (1, 0)]"
             "example_machine VAD_STATE_SPEECH_CONTINUE 4 0 1", unfolded Let_def]
  from r s show ?thesis by blast
qed

section \<open>The probability argument\<close>

text \<open>
  C8. The probability argument of \<^verbatim>\<open>vad_state_machine_process\<close> has no influence: two
  calls on the same handle with the same flag and any two probabilities return the same
  state, leave the same structure behind and emit the same events.
\<close>

theorem process_probability_noninterference:
  "vad_state_machine_process F h vad_flag p1 = vad_state_machine_process F h vad_flag p2"
  by (simp add: vad_state_machine_process_def)

section \<open>SPEECH_END lasts one call\<close>

text \<open>
  C9. A classifier in SPEECH_END does not stay there across a call: the call returns
  SPEECH_START when the updated \<open>speech_frame_count\<close> has reached
  \<open>speech_start_frames\<close> and SILENCE otherwise, a transition fires (\<open>previous_state\<close>
  becomes SPEECH_END, \<open>current_state_frames\<close> restarts, an event is emitted).
\<close>

theorem speech_end_lasts_one_call:
  "current_state sm = VAD_STATE_SPEECH_END \<Longrightarrow>
   \<exists>sm' evs.
     vad_state_machine_process F (Some sm) vad_flag p = (current_state sm', Some sm', evs) \<and>
     current_state sm' =
       (if int_ge (speech_frame_count sm') (speech_start_frames (config sm'))
        then VAD_STATE_SPEECH_START else VAD_STATE_SILENCE) \<and>
     current_state sm' \<noteq> VAD_STATE_SPEECH_END \<and>
     previous_state sm' = VAD_STATE_SPEECH_END \<and>
     current_state_frames sm' = 0 \<and>
     evs \<noteq> []"
  by (simp add: vad_state_machine_process_def state_logic_def change_state_other
        update_counters_def Let_def)

text \<open>
  After the 63 silent frames that end a pause (63 * 16 ms reach the default 1000 ms), one
  voiced frame is not enough for a new episode: SILENCE.
\<close>

theorem speech_end_lasts_one_call_witness:
  "current_state (example_machine VAD_STATE_SPEECH_END 0 63 0) = VAD_STATE_SPEECH_END \<and>
   (\<exists>sm' evs.
      vad_state_machine_process exact_ops
        (Some (example_machine VAD_STATE_SPEECH_END 0 63 0)) 1 0
        = (VAD_STATE_SILENCE, Some sm', evs) \<and>
      previous_state sm' = VAD_STATE_SPEECH_END \<and> evs \<noteq> [])"
proof -
  have s: "current_state (example_machine VAD_STATE_SPEECH_END 0 63 0) = VAD_STATE_SPEECH_END"
    by (simp add: example_machine_def)
  from speech_end_lasts_one_call [OF s, of exact_ops 1 0] obtain sm' evs where
    p: "vad_state_machine_process exact_ops
          (Some (example_machine VAD_STATE_SPEECH_END 0 63 0)) 1 0
        = (current_state sm', Some sm', evs)"
    and c: "current_state sm' =
       (if int_ge (speech_frame_count sm') (speech_start_frames (config sm'))
        then VAD_STATE_SPEECH_START else VAD_STATE_SILENCE)"
    and r: "previous_state sm' = VAD_STATE_SPEECH_END" "evs \<noteq> []"
    by blast
  from p have "speech_frame_count sm' = 1" "speech_start_frames (config sm') = 3"
    by (auto simp add: vad_state_machine_process_def state_logic_def update_counters_def
          change_state_def example_machine_def default_config_def int_ge_def Let_def
          split: if_splits)
  with c have "current_state sm' = VAD_STATE_SILENCE" by (simp add: int_ge_def)
  with p r s show ?thesis by auto
qed

section \<open>One transition per call\<close>

text \<open>
  C10. A call to \<^verbatim>\<open>vad_state_machine_process\<close> emits at most one callback invocation
  and at most one transition line. A callback invocation carries two different states,
  the state held before the call and the state the call leaves, goes to the registered
  callback with its user data, and \<open>previous_state\<close> is then the state held before.
  Without a transition \<open>current_state\<close> and \<open>previous_state\<close> are untouched; with one,
  \<open>current_state\<close> has changed and \<open>previous_state\<close> is the state held before.
\<close>

theorem at_most_one_transition_per_call:
  "\<exists>sm' evs.
     vad_state_machine_process F (Some sm) vad_flag p = (current_state sm', Some sm', evs) \<and>
     length (filter is_callback evs) \<le> 1 \<and>
     length (filter (\<lambda>e. \<not> is_callback e) evs) \<le> 1 \<and>
     (\<forall>f old new u. Callback f old new u \<in> set evs \<longrightarrow>
        old \<noteq> new \<and> old = current_state sm \<and> new = current_state sm' \<and>
        previous_state sm' = old \<and> callback sm = Some f \<and> user_data sm = u) \<and>
     (evs = [] \<longrightarrow>
        current_state sm' = current_state sm \<and> previous_state sm' = previous_state sm) \<and>
     (evs \<noteq> [] \<longrightarrow>
        current_state sm' \<noteq> current_state sm \<and> previous_state sm' = current_state sm)"
proof -
  obtain sm' evs where
    p: "vad_state_machine_process F (Some sm) vad_flag p = (current_state sm', Some sm', evs)"
    and s: "state_logic F (update_counters sm vad_flag) vad_flag = (sm', evs)"
    using process_step [of F sm vad_flag p] by blast
  from state_logic_events [OF s] update_counters_fixed [of sm vad_flag]
  have "length (filter is_callback evs) \<le> 1 \<and>
     length (filter (\<lambda>e. \<not> is_callback e) evs) \<le> 1 \<and>
     (\<forall>f old new u. Callback f old new u \<in> set evs \<longrightarrow>
        old \<noteq> new \<and> old = current_state sm \<and> new = current_state sm' \<and>
        previous_state sm' = old \<and> callback sm = Some f \<and> user_data sm = u) \<and>
     (evs = [] \<longrightarrow>
        current_state sm' = current_state sm \<and> previous_state sm' = previous_state sm) \<and>
     (evs \<noteq> [] \<longrightarrow>
        current_state sm' \<noteq> current_state sm \<and> previous_state sm' = current_state sm)"
    by (auto split: option.splits)
  with p show ?thesis by blast
qed

text \<open>The fifth silent frame in SPEECH_CONTINUE: one callback, to SPEECH_PAUSE.\<close>

theorem at_most_one_transition_per_call_witness:
  "\<exists>sm' evs.
     vad_state_machine_process exact_ops
       (Some (example_machine VAD_STATE_SPEECH_CONTINUE 0 4 20)) 0 0
       = (VAD_STATE_SPEECH_PAUSE, Some sm', evs) \<and>
     Callback 1 VAD_STATE_SPEECH_CONTINUE VAD_STATE_SPEECH_PAUSE 0 \<in> set evs \<and>
     length (filter is_callback evs) \<le> 1 \<and>
     previous_state sm' = VAD_STATE_SPEECH_CONTINUE"
proof -
  from at_most_one_transition_per_call
         [of exact_ops "example_machine VAD_STATE_SPEECH_CONTINUE 0 4 20" 0 0]
  obtain sm' evs where
    p: "vad_state_machine_process exact_ops
          (Some (example_machine VAD_STATE_SPEECH_CONTINUE 0 4 20)) 0 0
        = (current_state sm', Some sm', evs)"
    and l: "length (filter is_callback evs) \<le> 1"
    and cb: "\<forall>f old new u. Callback f old new u \<in> set evs \<longrightarrow>
        old \<noteq> new \<and> old = current_state (example_machine VAD_STATE_SPEECH_CONTINUE 0 4 20) \<and>
        new = current_state sm' \<and> previous_state sm' = old \<and>
        callback (example_machine VAD_STATE_SPEECH_CONTINUE 0 4 20) = Some f \<and>
        user_data (example_machine VAD_STATE_SPEECH_CONTINUE 0 4 20) = u"
    by blast
  from p have e: "Callback 1 VAD_STATE_SPEECH_CONTINUE VAD_STATE_SPEECH_PAUSE 0 \<in> set evs"
    by (auto simp add: vad_state_machine_process_def state_logic_def update_counters_def
          change_state_def example_machine_def default_config_def int_ge_def Let_def
          split: if_splits)
  with cb have "current_state sm' = VAD_STATE_SPEECH_PAUSE"
    "previous_state sm' = VAD_STATE_SPEECH_CONTINUE"
    by auto
  with p l e show ?thesis by auto
qed

end
